theory Spec2Isabelle
  imports Main "HOL-Library.Char_ord" "HOL-Library.List_Lexorder" "HOL-Library.Word"
begin

section \<open>The conversation feed of \<^verbatim>\<open>src/components/chat/ChatWindow.tsx\<close>\<close>

text \<open>
  The component is a React function component. Its state cells (\<^verbatim>\<open>useState\<close>), its
  refs (\<^verbatim>\<open>useRef\<close>) and the resources it holds (the realtime subscription, the
  polling interval, the scroll timeout) are the fields of one record; every handler and
  every continuation of an awaited store call is a function from the state before to the
  state after, together with the list of effects it has on the outside world.
\<close>

subsection \<open>Data\<close>

text \<open>
  The joined sender of the select
  \<^verbatim>\<open>sender:sender_id(first_name, last_name, avatar_url)\<close>.
\<close>

record profile =
  first_name :: string
  last_name :: string
  avatar_url :: "string option"

text \<open>
  \<^verbatim>\<open>interface Message\<close> of \<^verbatim>\<open>types/database\<close>, with the columns and the join the
  queries of the component select. The field \<^verbatim>\<open>id\<close> is \<open>id_of\<close> here (\<open>id\<close> is the
  identity function of HOL). \<^verbatim>\<open>created_at\<close> is a string in the source (an ISO
  timestamp); strings are compared lexicographically.
\<close>

record message =
  id_of :: string
  sender_id :: string
  receiver_id :: "string option"
  request_id :: "string option"
  content :: string
  is_read :: bool
  created_at :: string
  sender :: "profile option"

text \<open>The \<^verbatim>\<open>{ data, error }\<close> object every store call resolves to.\<close>

record 'a response =
  data :: "'a option"
  error :: "string option"

text \<open>\<^verbatim>\<open>user\<close> of \<^verbatim>\<open>useAuth()\<close>: only \<^verbatim>\<open>user.id\<close> is read.\<close>

record auth_user =
  user_id :: string

text \<open>The row handed to \<^verbatim>\<open>supabase.from('messages').insert\<close>.\<close>

record insert_row =
  row_sender_id :: string
  row_request_id :: string
  row_content :: string

text \<open>
  What a handler does outside the component state. \<open>SetMessages\<close> records a call of the
  state setter of the transcript with a new array (React renders again after it); a
  functional update that returns \<^verbatim>\<open>prev\<close> itself is no update and is not recorded.
\<close>

datatype effect =
    SelectList string
  | Subscribe string
  | Unsubscribe
  | SetInterval nat
  | ClearInterval
  | ClearTimeout
  | SetMessages "message list"
  | ConsoleError string
  | ConsoleDebug string
  | ScrollIntoView
  | SetTimeout nat effect
  | PreventDefault
  | Insert insert_row

text \<open>
  The component instance. \<open>lastMessageCount\<close>, \<open>isUserScrolling\<close> are the
  \<^verbatim>\<open>.current\<close> of the refs of the same name; \<open>scrollTimeout\<close> and \<open>refreshInterval\<close>
  hold the delay of the pending timer (\<open>None\<close>: no timer pending); \<open>subscription\<close>
  holds the request id the open channel filters on. The refs of the source keep the id
  of a timer that has fired or was cleared; clearing such a timer does nothing and is not
  recorded as an effect.

  \<open>interval_messages\<close> is the \<^verbatim>\<open>messages\<close> that \<^verbatim>\<open>silentRefreshMessages\<close> reads: the
  interval is installed by the effect with dependencies \<^verbatim>\<open>[requestId]\<close> (lines 24-42),
  so the function it calls is the one of the render in which that effect ran, and the
  \<^verbatim>\<open>messages\<close> of that function is the constant of that render.
\<close>

record chat_state =
  requestId :: string
  messages :: "message list"
  newMessage :: string
  loading :: bool
  sending :: bool
  lastMessageCount :: nat
  isUserScrolling :: bool
  scrollTimeout :: "nat option"
  refreshInterval :: "nat option"
  subscription :: "string option"
  interval_messages :: "message list"

text \<open>The first render (lines 13-22).\<close>

definition init :: "string \<Rightarrow> chat_state" where
  "init r = \<lparr>requestId = r, messages = [], newMessage = [], loading = True,
     sending = False, lastMessageCount = 0, isUserScrolling = False,
     scrollTimeout = None, refreshInterval = None, subscription = None,
     interval_messages = []\<rparr>"

subsection \<open>Channel lifecycle (lines 24-42)\<close>

text \<open>
  The body of the effect: it issues the initial fetch (not awaited), subscribes and
  installs the interval, in this order and without a condition.
\<close>

definition useEffect_requestId :: "chat_state \<Rightarrow> chat_state \<times> effect list" where
  "useEffect_requestId st =
     (st\<lparr>subscription := Some (requestId st), refreshInterval := Some 2000,
         interval_messages := messages st\<rparr>,
      [SelectList (requestId st), Subscribe (requestId st), SetInterval 2000])"

text \<open>The cleanup the effect returns (lines 33-41).\<close>

definition useEffect_requestId_cleanup :: "chat_state \<Rightarrow> chat_state \<times> effect list" where
  "useEffect_requestId_cleanup st =
     (st\<lparr>subscription := None, refreshInterval := None, scrollTimeout := None\<rparr>,
      [Unsubscribe]
      @ (if refreshInterval st \<noteq> None then [ClearInterval] else [])
      @ (if scrollTimeout st \<noteq> None then [ClearTimeout] else []))"



subsection \<open>The three sources of transcript updates\<close>

text \<open>The continuation of the initial fetch (lines 63-69).\<close>

definition fetchMessages :: "chat_state \<Rightarrow> message list response \<Rightarrow> chat_state \<times> effect list" where
  "fetchMessages st res =
     (case error res of
        Some e \<Rightarrow> (st\<lparr>loading := False\<rparr>, [ConsoleError ''Error fetching messages:''])
      | None \<Rightarrow>
          (let d = (case data res of Some d \<Rightarrow> d | None \<Rightarrow> [])
           in (st\<lparr>messages := d, loading := False\<rparr>, [SetMessages d])))"

text \<open>
  The continuation of a poll (lines 83-92). The first argument is the \<^verbatim>\<open>messages\<close> of
  the function that issued the fetch: the constant of the render whose effect installed
  the interval that called it. It is fixed when the fetch is issued; the state is the one
  the continuation finds when the fetch resolves.
\<close>

definition silentRefreshMessages_of ::
    "message list \<Rightarrow> chat_state \<Rightarrow> message list response \<Rightarrow> chat_state \<times> effect list" where
  "silentRefreshMessages_of closure_messages st res =
     (case error res of
        Some e \<Rightarrow> (st, [ConsoleDebug ''Silent refresh failed:''])
      | None \<Rightarrow>
          (case data res of
             None \<Rightarrow> (st, [])
           | Some d \<Rightarrow>
               if length d \<noteq> length closure_messages
               then (st\<lparr>messages := d\<rparr>, [SetMessages d])
               else (st, [])))"

text \<open>A poll of the interval that is installed now.\<close>

definition silentRefreshMessages :: "chat_state \<Rightarrow> message list response \<Rightarrow> chat_state \<times> effect list" where
  "silentRefreshMessages st res = silentRefreshMessages_of (interval_messages st) st res"

text \<open>
  The continuation of the point fetch in the handler of an INSERT event
  (lines 117-124): \<^verbatim>\<open>prev\<close> is the current state.
\<close>

definition subscribeToMessages :: "chat_state \<Rightarrow> message response \<Rightarrow> chat_state \<times> effect list" where
  "subscribeToMessages st res =
     (case (error res, data res) of
        (None, Some d) \<Rightarrow>
          (let prev = messages st;
               exists = list_ex (\<lambda>msg. id_of msg = id_of d) prev
           in if exists then (st, [])
              else (st\<lparr>messages := prev @ [d]\<rparr>, [SetMessages (prev @ [d])]))
      | _ \<Rightarrow> (st, []))"

subsection \<open>Scrolling (lines 44-50, 130-150)\<close>

text \<open>
  \<^verbatim>\<open>messagesEndRef.current?.scrollIntoView\<close>: the element of the ref is rendered with
  the chat, not with the spinner, so the ref is empty while loading.
\<close>

definition scrollToBottom :: "chat_state \<Rightarrow> effect list" where
  "scrollToBottom st = (if loading st then [] else [ScrollIntoView])"

text \<open>The effect with dependencies \<^verbatim>\<open>[messages]\<close>.\<close>

definition useEffect_messages :: "chat_state \<Rightarrow> chat_state \<times> effect list" where
  "useEffect_messages st =
     (st\<lparr>lastMessageCount := length (messages st)\<rparr>,
      if \<not> isUserScrolling st \<and> length (messages st) > lastMessageCount st
      then scrollToBottom st else [])"




subsection \<open>Mounting and a change of the conversation\<close>

text \<open>
  After the first render React runs both effects in the order of the source; the second
  finds no growth of the empty transcript.
\<close>

definition mount :: "string \<Rightarrow> chat_state \<times> effect list" where
  "mount r =
     (let (st1, e1) = useEffect_requestId (init r);
          (st2, e2) = useEffect_messages st1
      in (st2, e1 @ e2))"

text \<open>
  A render with another \<^verbatim>\<open>requestId\<close>: the state cells and refs are kept, the cleanup of
  the old effect runs, then the effect of the new render. The transcript has not changed,
  so the effect with dependencies \<^verbatim>\<open>[messages]\<close> does not run.

  \<open>interval_messages\<close> is from now on the \<^verbatim>\<open>messages\<close> of the new interval, which the
  polls issued after the change read. A poll that the old interval issued and that is
  still in flight keeps the \<^verbatim>\<open>messages\<close> of the old interval: its continuation is
  \<open>silentRefreshMessages_of\<close> with the \<open>interval_messages\<close> of the state before the
  change.
\<close>

definition changeRequestId :: "chat_state \<Rightarrow> string \<Rightarrow> chat_state \<times> effect list" where
  "changeRequestId st r =
     (let (st1, e1) = useEffect_requestId_cleanup st;
          (st2, e2) = useEffect_requestId (st1\<lparr>requestId := r\<rparr>)
      in (st2, e1 @ e2))"

text \<open>
  Unmounting runs the cleanup and no effect after it. The continuations of the fetches in
  flight are not cancelled by the cleanup.
\<close>

definition unmount :: "chat_state \<Rightarrow> chat_state \<times> effect list" where
  "unmount st = useEffect_requestId_cleanup st"

subsection \<open>Sending (lines 152-176)\<close>

text \<open>
  \<^verbatim>\<open>String.prototype.trim\<close>: the white space and line terminators of ECMAScript among
  the code units below 256.
\<close>

definition isWhiteSpace :: "char \<Rightarrow> bool" where
  "isWhiteSpace c =
     (c \<in> set [CHR 0x09, CHR 0x0A, CHR 0x0B, CHR 0x0C, CHR 0x0D, CHR 0x20, CHR 0xA0])"

definition trim :: "string \<Rightarrow> string" where
  "trim s = rev (dropWhile isWhiteSpace (rev (dropWhile isWhiteSpace s)))"

text \<open>The handler up to the awaited insert.\<close>

definition handleSendMessage :: "chat_state \<Rightarrow> auth_user option \<Rightarrow> chat_state \<times> effect list" where
  "handleSendMessage st user =
     (if trim (newMessage st) = [] \<or> user = None then (st, [PreventDefault])
      else case user of
        None \<Rightarrow> (st, [PreventDefault])
      | Some u \<Rightarrow>
          (st\<lparr>sending := True\<rparr>,
           [PreventDefault,
            Insert \<lparr>row_sender_id = user_id u, row_request_id = requestId st,
                    row_content = trim (newMessage st)\<rparr>]))"

text \<open>The continuation of the insert: \<open>err\<close> is the \<^verbatim>\<open>error\<close> it resolved to.\<close>

definition handleSendMessage_resolved :: "chat_state \<Rightarrow> string option \<Rightarrow> chat_state \<times> effect list" where
  "handleSendMessage_resolved st err =
     (case err of
        None \<Rightarrow> (st\<lparr>newMessage := [], sending := False\<rparr>, [SetTimeout 100 ScrollIntoView])
      | Some e \<Rightarrow> (st\<lparr>sending := False\<rparr>, [ConsoleError ''Error sending message:'']))"

subsection \<open>Rendering (lines 178-251)\<close>

text \<open>
  What the user sees: the spinner while loading, otherwise one bubble for each message of
  the transcript, the input and the send button. The time of a bubble is kept as the
  \<^verbatim>\<open>created_at\<close> it is formatted from. There is no other element.
\<close>

record bubble =
  own :: bool
  sender_name :: "(string \<times> string) option"
  body :: string
  time_of :: string

datatype view =
    Spinner
  | Chat (bubbles: "bubble list") (input_value: string) (button_disabled: bool)
      (button_spinner: bool)

definition render_message :: "auth_user option \<Rightarrow> message \<Rightarrow> bubble" where
  "render_message user m =
     \<lparr>own = (Some (sender_id m) = map_option user_id user),
      sender_name = map_option (\<lambda>p. (first_name p, last_name p)) (sender m),
      body = content m, time_of = created_at m\<rparr>"

definition render :: "chat_state \<Rightarrow> auth_user option \<Rightarrow> view" where
  "render st user =
     (if loading st then Spinner
      else Chat (map (render_message user) (messages st)) (newMessage st)
             (sending st \<or> trim (newMessage st) = []) (sending st))"

subsection \<open>Runs of transcript updates\<close>

text \<open>
  The results that reach the transcript: the initial fetch, a poll, the point fetch of a
  push event. After a call of the setter React renders again and runs the effect with
  dependencies \<^verbatim>\<open>[messages]\<close>.
\<close>

datatype event =
    Load "message list response"
  | Poll "message list response"
  | Push "message response"

fun merge_event :: "chat_state \<Rightarrow> event \<Rightarrow> chat_state \<times> effect list" where
  "merge_event st (Load res) = fetchMessages st res"
| "merge_event st (Poll res) = silentRefreshMessages st res"
| "merge_event st (Push res) = subscribeToMessages st res"

fun is_SetMessages :: "effect \<Rightarrow> bool" where
  "is_SetMessages (SetMessages ms) = True"
| "is_SetMessages _ = False"

definition step :: "chat_state \<Rightarrow> event \<Rightarrow> chat_state" where
  "step st ev =
     (let (st', effs) = merge_event st ev
      in if list_ex is_SetMessages effs then fst (useEffect_messages st') else st')"

fun run :: "chat_state \<Rightarrow> event list \<Rightarrow> chat_state" where
  "run st [] = st"
| "run st (ev # evs) = run (step st ev) evs"

subsection \<open>The properties of the specification\<close>

text \<open>
  The order of the specification: ascending by \<^verbatim>\<open>createdAt\<close>, ties broken by
  \<^verbatim>\<open>id\<close>.
\<close>

definition msg_before :: "message \<Rightarrow> message \<Rightarrow> bool" where
  "msg_before a b =
     (created_at a < created_at b \<or> (created_at a = created_at b \<and> id_of a < id_of b))"

definition ordered :: "message list \<Rightarrow> bool" where
  "ordered ms = sorted_wrt msg_before ms"

definition unique_ids :: "message list \<Rightarrow> bool" where
  "unique_ids ms = distinct (map id_of ms)"



text \<open>
  A run stays id-unique when every list the store returns is; it stays in order when every
  list the store returns is and every pushed message that is new comes after all
  messages of the transcript.
\<close>

fun unique_result :: "event \<Rightarrow> bool" where
  "unique_result (Load res) = (case data res of Some d \<Rightarrow> unique_ids d | None \<Rightarrow> True)"
| "unique_result (Poll res) = (case data res of Some d \<Rightarrow> unique_ids d | None \<Rightarrow> True)"
| "unique_result (Push res) = True"

fun in_order :: "chat_state \<Rightarrow> event \<Rightarrow> bool" where
  "in_order st (Load res) = (case data res of Some d \<Rightarrow> ordered d | None \<Rightarrow> True)"
| "in_order st (Poll res) = (case data res of Some d \<Rightarrow> ordered d | None \<Rightarrow> True)"
| "in_order st (Push res) =
     (case data res of
        Some d \<Rightarrow> list_ex (\<lambda>msg. id_of msg = id_of d) (messages st)
                  \<or> list_all (\<lambda>msg. msg_before msg d) (messages st)
      | None \<Rightarrow> True)"

fun all_in_order :: "chat_state \<Rightarrow> event list \<Rightarrow> bool" where
  "all_in_order st [] = True"
| "all_in_order st (ev # evs) = (in_order st ev \<and> all_in_order (step st ev) evs)"

subsection \<open>Example data\<close>

definition example_message :: "string \<Rightarrow> string \<Rightarrow> message" where
  "example_message i t = \<lparr>id_of = i, sender_id = ''u1'', receiver_id = None,
     request_id = Some ''r1'', content = ''hello'', is_read = False, created_at = t,
     sender = None\<rparr>"

definition m1 :: message where
  "m1 = example_message ''m1'' ''2025-05-21T10:00:01Z''"

definition m2 :: message where
  "m2 = example_message ''m2'' ''2025-05-21T10:00:02Z''"

definition m3 :: message where
  "m3 = example_message ''m3'' ''2025-05-21T10:00:03Z''"

definition ok :: "'a \<Rightarrow> 'a response" where
  "ok d = \<lparr>data = Some d, error = None\<rparr>"

definition failed :: "string \<Rightarrow> 'a response" where
  "failed e = \<lparr>data = None, error = Some e\<rparr>"

definition alice :: auth_user where
  "alice = \<lparr>user_id = ''u1''\<rparr>"



section \<open>What each handler does to the transcript\<close>

lemmas ev_defs = step_def fetchMessages_def subscribeToMessages_def
  silentRefreshMessages_def silentRefreshMessages_of_def useEffect_messages_def scrollToBottom_def mount_def
  useEffect_requestId_def useEffect_requestId_cleanup_def changeRequestId_def
  init_def ok_def failed_def m1_def m2_def m3_def example_message_def Let_def

lemma messages_useEffect_messages: "messages (fst (useEffect_messages st)) = messages st"
  by (simp add: useEffect_messages_def)

lemma messages_step: "messages (step st ev) = messages (fst (merge_event st ev))"
  by (simp add: step_def messages_useEffect_messages split: prod.splits)

lemma messages_fetchMessages:
  "messages (fst (fetchMessages st res)) =
     (case error res of Some e \<Rightarrow> messages st
      | None \<Rightarrow> (case data res of Some d \<Rightarrow> d | None \<Rightarrow> []))"
  by (simp add: fetchMessages_def split: option.splits)

lemma messages_silentRefreshMessages_of:
  "messages (fst (silentRefreshMessages_of ms st res)) =
     (case (error res, data res) of
        (None, Some d) \<Rightarrow> if length d \<noteq> length ms then d else messages st
      | _ \<Rightarrow> messages st)"
  by (simp add: silentRefreshMessages_of_def split: option.splits)

lemma messages_silentRefreshMessages:
  "messages (fst (silentRefreshMessages st res)) =
     (case (error res, data res) of
        (None, Some d) \<Rightarrow> if length d \<noteq> length (interval_messages st) then d else messages st
      | _ \<Rightarrow> messages st)"
  by (simp add: silentRefreshMessages_def messages_silentRefreshMessages_of)

lemma messages_subscribeToMessages:
  "messages (fst (subscribeToMessages st res)) =
     (case (error res, data res) of
        (None, Some d) \<Rightarrow>
          if list_ex (\<lambda>msg. id_of msg = id_of d) (messages st) then messages st
          else messages st @ [d]
      | _ \<Rightarrow> messages st)"
  by (simp add: subscribeToMessages_def Let_def split: option.splits)

lemma messages_changeRequestId: "messages (fst (changeRequestId st r)) = messages st"
  by (simp add: changeRequestId_def useEffect_requestId_def useEffect_requestId_cleanup_def)

lemma messages_unmount: "messages (fst (unmount st)) = messages st"
  by (simp add: unmount_def useEffect_requestId_cleanup_def)

lemma interval_messages_changeRequestId:
  "interval_messages (fst (changeRequestId st r)) = messages st"
  by (simp add: changeRequestId_def useEffect_requestId_def useEffect_requestId_cleanup_def)

lemma unique_step:
  "unique_ids (messages st) \<Longrightarrow> unique_result ev \<Longrightarrow> unique_ids (messages (step st ev))"
  by (cases ev)
     (auto simp add: messages_step messages_fetchMessages messages_silentRefreshMessages
        messages_subscribeToMessages unique_ids_def list_ex_iff split: option.splits)

lemma unique_run:
  "unique_ids (messages st) \<Longrightarrow> list_all unique_result evs
     \<Longrightarrow> unique_ids (messages (run st evs))"
  by (induction evs arbitrary: st) (auto simp add: unique_step)

lemma ordered_step:
  "ordered (messages st) \<Longrightarrow> in_order st ev \<Longrightarrow> ordered (messages (step st ev))"
  by (cases ev)
     (auto simp add: messages_step messages_fetchMessages messages_silentRefreshMessages
        messages_subscribeToMessages ordered_def sorted_wrt_append list_ex_iff list_all_iff
        split: option.splits)

lemma ordered_run:
  "ordered (messages st) \<Longrightarrow> all_in_order st evs \<Longrightarrow> ordered (messages (run st evs))"
  by (induction evs arbitrary: st) (auto simp add: ordered_step)

lemma push_present:
  "list_ex (\<lambda>msg. id_of msg = id_of d) (messages st) \<Longrightarrow> step st (Push (ok d)) = st"
  by (simp add: step_def subscribeToMessages_def ok_def Let_def)

section \<open>The claims\<close>

subsection \<open>C1: the order of the transcript\<close>

text \<open>
  C1, as the code has it. Over any sequence of results from the initial fetch, the poll
  and the push channel, the transcript is sorted strictly ascending by \<^verbatim>\<open>createdAt\<close>,
  ties broken by \<^verbatim>\<open>id\<close>, provided every list the store returns is sorted so and every
  pushed message that is not yet in the transcript comes after all messages of the
  transcript. The component never sorts: a pushed message that is new is appended last,
  whatever its \<^verbatim>\<open>createdAt\<close>.
\<close>

theorem push_order_amended:
  assumes "ordered (messages st)" and "all_in_order st evs"
  shows "ordered (messages (run st evs)) \<and>
         (\<forall>d. \<not> list_ex (\<lambda>msg. id_of msg = id_of d) (messages (run st evs))
               \<longrightarrow> messages (step (run st evs) (Push (ok d))) = messages (run st evs) @ [d])"
  using assms by (simp add: ordered_run messages_step messages_subscribeToMessages ok_def)

theorem push_order_amended_witness:
  "ordered (messages (fst (mount ''r1''))) \<and>
   all_in_order (fst (mount ''r1'')) [Load (ok [m1]), Push (ok m2), Poll (ok [m1, m2])] \<and>
   ordered (messages (run (fst (mount ''r1''))
      [Load (ok [m1]), Push (ok m2), Poll (ok [m1, m2])])) \<and>
   messages (step (run (fst (mount ''r1''))
      [Load (ok [m1]), Push (ok m2), Poll (ok [m1, m2])]) (Push (ok m3))) = [m1, m2, m3]"
proof -
  let ?st = "fst (mount ''r1'')"
  let ?evs = "[Load (ok [m1]), Push (ok m2), Poll (ok [m1, m2])]"
  have h1: "ordered (messages ?st)"
    by (simp add: ev_defs ordered_def)
  have h2: "all_in_order ?st ?evs"
    by (simp add: ev_defs ordered_def msg_before_def)
  have r: "messages (run ?st ?evs) = [m1, m2]"
    by (simp add: ev_defs)
  have p: "\<not> list_ex (\<lambda>msg. id_of msg = id_of m3) (messages (run ?st ?evs))"
    unfolding r by (simp add: m1_def m2_def m3_def example_message_def)
  from push_order_amended [OF h1 h2] p
  have "ordered (messages (run ?st ?evs))"
    and "messages (step (run ?st ?evs) (Push (ok m3))) = messages (run ?st ?evs) @ [m3]"
    by blast+
  with h1 h2 r show ?thesis by simp
qed

text \<open>
  C1 as stated fails: the transcript holds \<open>m2\<close>, the push channel delivers \<open>m1\<close>, which
  is earlier; \<open>m1\<close> is placed last and the transcript is out of order.
\<close>

theorem push_order_counterexample:
  "messages (run (fst (mount ''r1'')) [Load (ok [m2]), Push (ok m1)]) = [m2, m1] \<and>
   msg_before m1 m2 \<and>
   \<not> ordered (messages (run (fst (mount ''r1'')) [Load (ok [m2]), Push (ok m1)]))"
  by (simp add: ev_defs ordered_def msg_before_def)

subsection \<open>C2: a poll that brings nothing new\<close>

text \<open>
  C2 fails on the code. The function the interval calls compares the length of the
  store's list with the length of the \<^verbatim>\<open>messages\<close> of the render that installed the
  interval, which is the empty list after mounting, not with the current transcript.
  After the initial fetch has put \<open>m1\<close> into the transcript, a poll that returns the same
  list \<open>[m1]\<close> calls the setter, and so does the next one.
\<close>

theorem poll_same_list_updates:
  "messages (run (fst (mount ''r1'')) [Load (ok [m1])]) = [m1] \<and>
   interval_messages (run (fst (mount ''r1'')) [Load (ok [m1])]) = [] \<and>
   snd (silentRefreshMessages (run (fst (mount ''r1'')) [Load (ok [m1])]) (ok [m1]))
     = [SetMessages [m1]] \<and>
   snd (silentRefreshMessages (run (fst (mount ''r1'')) [Load (ok [m1]), Poll (ok [m1])])
          (ok [m1]))
     = [SetMessages [m1]]"
  by (simp add: ev_defs)

subsection \<open>C3: what a poll removes\<close>

text \<open>
  C3, as the code has it. A poll that succeeds replaces the transcript by the store's
  list exactly when the length of that list differs from the length of the \<^verbatim>\<open>messages\<close>
  the polling function reads; then the messages absent from the list are gone. When the
  two lengths are equal the transcript stays as it is, whatever its members.
\<close>

theorem poll_membership_amended:
  assumes "error res = None" and "data res = Some d"
  shows "messages (fst (silentRefreshMessages st res))
           = (if length d \<noteq> length (interval_messages st) then d else messages st)"
  using assms by (simp add: messages_silentRefreshMessages)

theorem poll_membership_amended_witness:
  "error (ok [m1, m3]) = None \<and> data (ok [m1, m3]) = Some [m1, m3] \<and>
   messages (run (fst (mount ''r1'')) [Load (ok [m1, m2, m3])]) = [m1, m2, m3] \<and>
   messages (fst (silentRefreshMessages
       (run (fst (mount ''r1'')) [Load (ok [m1, m2, m3])]) (ok [m1, m3]))) = [m1, m3]"
proof -
  let ?st = "run (fst (mount ''r1'')) [Load (ok [m1, m2, m3])]"
  have h1: "error (ok [m1, m3]) = None" by (simp add: ok_def)
  have h2: "data (ok [m1, m3]) = Some [m1, m3]" by (simp add: ok_def)
  have i: "interval_messages ?st = []" by (simp add: ev_defs)
  have r: "messages ?st = [m1, m2, m3]" by (simp add: ev_defs)
  from poll_membership_amended [OF h1 h2, of ?st] i
  have "messages (fst (silentRefreshMessages ?st (ok [m1, m3]))) = [m1, m3]" by simp
  with h1 h2 r show ?thesis by simp
qed

text \<open>
  C3 as stated fails. The view of conversation \<open>r1\<close> has loaded \<open>[m1, m2]\<close>, is switched
  to \<open>r2\<close> and back to \<open>r1\<close>: the interval now installed reads a \<^verbatim>\<open>messages\<close> equal to
  the transcript \<open>[m1, m2]\<close>. A poll returns \<open>[m1, m3]\<close>; the lengths are equal, the
  transcript keeps \<open>m2\<close>, which the poll's list does not contain.
\<close>

theorem poll_membership_counterexample:
  "messages (fst (changeRequestId (fst (changeRequestId
       (run (fst (mount ''r1'')) [Load (ok [m1, m2])]) ''r2'')) ''r1'')) = [m1, m2] \<and>
   interval_messages (fst (changeRequestId (fst (changeRequestId
       (run (fst (mount ''r1'')) [Load (ok [m1, m2])]) ''r2'')) ''r1'')) = [m1, m2] \<and>
   messages (step (fst (changeRequestId (fst (changeRequestId
       (run (fst (mount ''r1'')) [Load (ok [m1, m2])]) ''r2'')) ''r1''))
     (Poll (ok [m1, m3]))) = [m1, m2] \<and>
   m2 \<notin> set [m1, m3]"
  by (simp add: ev_defs)

subsection \<open>C4: what a push adds\<close>

text \<open>
  C4, as the code has it. A push whose point fetch succeeds never removes anything: when
  no message of the transcript has the id of the fetched message, the message is appended
  at the end of the transcript (for the transcript \<open>[m1]\<close> and an earlier \<open>m2\<close> the result
  is \<open>[m1, m2]\<close>); otherwise the transcript is left as it is.
\<close>

theorem push_additive_amended:
  assumes "error res = None" and "data res = Some d"
  shows "messages (fst (subscribeToMessages st res))
           = (if list_ex (\<lambda>msg. id_of msg = id_of d) (messages st) then messages st
              else messages st @ [d])"
  using assms by (simp add: messages_subscribeToMessages)

theorem push_additive_amended_witness:
  "error (ok m2) = None \<and> data (ok m2) = Some m2 \<and>
   messages (run (fst (mount ''r1'')) [Load (ok [m3])]) = [m3] \<and>
   messages (fst (subscribeToMessages (run (fst (mount ''r1'')) [Load (ok [m3])]) (ok m2)))
     = [m3] @ [m2]"
proof -
  let ?st = "run (fst (mount ''r1'')) [Load (ok [m3])]"
  have h1: "error (ok m2) = None" by (simp add: ok_def)
  have h2: "data (ok m2) = Some m2" by (simp add: ok_def)
  have r: "messages ?st = [m3]" by (simp add: ev_defs)
  have p: "\<not> list_ex (\<lambda>msg. id_of msg = id_of m2) (messages ?st)"
    unfolding r by (simp add: m2_def m3_def example_message_def)
  from push_additive_amended [OF h1 h2, of ?st] p r
  have "messages (fst (subscribeToMessages ?st (ok m2))) = [m3] @ [m2]" by simp
  with h1 h2 r show ?thesis by simp
qed

text \<open>
  C4 as stated fails: the transcript is \<open>[m3]\<close>, the point fetch returns \<open>m2\<close>, created
  earlier than \<open>m3\<close>; the result is \<open>[m3, m2]\<close>, not \<open>[m2, m3]\<close>.
\<close>

theorem push_additive_counterexample:
  "messages (run (fst (mount ''r1'')) [Load (ok [m3])]) = [m3] \<and>
   created_at m2 < created_at m3 \<and>
   messages (fst (subscribeToMessages (run (fst (mount ''r1'')) [Load (ok [m3])]) (ok m2)))
     = [m3, m2] \<and>
   messages (fst (subscribeToMessages (run (fst (mount ''r1'')) [Load (ok [m3])]) (ok m2)))
     \<noteq> [m2, m3]"
  by (simp add: ev_defs)

subsection \<open>C5: a failed initial fetch\<close>

text \<open>
  C5, as the code has it. Mounting issues the initial fetch, opens the push subscription
  and installs the 2000 ms polling interval, whatever the fetch will resolve to. When the
  fetch fails, in whatever state the component is by then, the failure is logged to the
  console and nothing changes but the loading flag, which is cleared: the subscription and
  the interval stay as they are, and the view is the chat with the transcript as it is at
  that moment, the same view as after a fetch that succeeded with that transcript. No
  error is shown and the handler does not issue the fetch again.
\<close>

theorem initial_load_failure_amended:
  assumes "error res = Some e"
  shows "snd (mount r) = [SelectList r, Subscribe r, SetInterval 2000] \<and>
         subscription (fst (mount r)) = Some r \<and>
         refreshInterval (fst (mount r)) = Some 2000 \<and>
         fetchMessages st res
           = (st\<lparr>loading := False\<rparr>, [ConsoleError ''Error fetching messages:'']) \<and>
         render (fst (fetchMessages st res)) user
           = Chat (map (render_message user) (messages st)) (newMessage st)
               (sending st \<or> trim (newMessage st) = []) (sending st) \<and>
         render (fst (fetchMessages st res)) user
           = render (fst (fetchMessages st (ok (messages st)))) user"
  using assms
  by (simp add: mount_def useEffect_requestId_def useEffect_messages_def init_def
        fetchMessages_def render_def ok_def)

theorem initial_load_failure_amended_witness:
  "error (failed ''StoreUnavailable'' :: message list response) = Some ''StoreUnavailable'' \<and>
   snd (mount ''r1'') = [SelectList ''r1'', Subscribe ''r1'', SetInterval 2000] \<and>
   messages (step (fst (mount ''r1'')) (Push (ok m1))) = [m1] \<and>
   fetchMessages (step (fst (mount ''r1'')) (Push (ok m1))) (failed ''StoreUnavailable'')
     = ((step (fst (mount ''r1'')) (Push (ok m1)))\<lparr>loading := False\<rparr>,
        [ConsoleError ''Error fetching messages:'']) \<and>
   subscription (fst (fetchMessages (step (fst (mount ''r1'')) (Push (ok m1)))
      (failed ''StoreUnavailable''))) = Some ''r1'' \<and>
   refreshInterval (fst (fetchMessages (step (fst (mount ''r1'')) (Push (ok m1)))
      (failed ''StoreUnavailable''))) = Some 2000 \<and>
   render (fst (fetchMessages (step (fst (mount ''r1'')) (Push (ok m1)))
      (failed ''StoreUnavailable''))) (Some alice)
     = Chat [render_message (Some alice) m1] [] True False"
proof -
  let ?st = "step (fst (mount ''r1'')) (Push (ok m1))"
  have h: "error (failed ''StoreUnavailable'' :: message list response) = Some ''StoreUnavailable''"
    by (simp add: failed_def)
  note t = initial_load_failure_amended [OF h, of "''r1''" ?st "Some alice"]
  have m: "messages ?st = [m1]" by (simp add: ev_defs)
  have n: "newMessage ?st = []" by (simp add: ev_defs)
  have s: "sending ?st = False" by (simp add: ev_defs)
  have c: "subscription ?st = Some ''r1''" by (simp add: ev_defs)
  have i: "refreshInterval ?st = Some 2000" by (simp add: ev_defs)
  from t have e: "fetchMessages ?st (failed ''StoreUnavailable'')
      = (?st\<lparr>loading := False\<rparr>, [ConsoleError ''Error fetching messages:''])"
    by blast
  from t have v: "render (fst (fetchMessages ?st (failed ''StoreUnavailable''))) (Some alice)
      = Chat (map (render_message (Some alice)) (messages ?st)) (newMessage ?st)
          (sending ?st \<or> trim (newMessage ?st) = []) (sending ?st)"
    by blast
  from t have a: "snd (mount ''r1'') = [SelectList ''r1'', Subscribe ''r1'', SetInterval 2000]"
    by blast
  have v': "render (fst (fetchMessages ?st (failed ''StoreUnavailable''))) (Some alice)
      = Chat [render_message (Some alice) m1] [] True False"
    unfolding v m n s by (simp add: trim_def)
  have c': "subscription (fst (fetchMessages ?st (failed ''StoreUnavailable''))) = Some ''r1''"
    unfolding e using c by simp
  have i': "refreshInterval (fst (fetchMessages ?st (failed ''StoreUnavailable''))) = Some 2000"
    unfolding e using i by simp
  from h a m e c' i' v' show ?thesis by blast
qed

text \<open>
  C5 as stated fails: after a failed initial fetch the subscription is open, the polling
  interval is installed, and the view is the one of a conversation that loaded with no
  messages.
\<close>

theorem initial_load_failure_counterexample:
  "subscription (fst (fetchMessages (fst (mount ''r1'')) (failed ''StoreUnavailable'')))
     = Some ''r1'' \<and>
   refreshInterval (fst (fetchMessages (fst (mount ''r1'')) (failed ''StoreUnavailable'')))
     = Some 2000 \<and>
   render (fst (fetchMessages (fst (mount ''r1'')) (failed ''StoreUnavailable''))) (Some alice)
     = render (fst (fetchMessages (fst (mount ''r1'')) (ok []))) (Some alice)"
  by (simp add: ev_defs render_def)

subsection \<open>C6: fetches that resolve late\<close>

text \<open>
  C6, as the code has it. No continuation checks which conversation is active or whether
  the view is mounted. A poll that was issued before the conversation id changed and
  resolves after the change is merged into the transcript of the view by the rule of the
  poll, with the \<^verbatim>\<open>messages\<close> of the interval that issued it: its list replaces the
  transcript when its length differs from the length of that \<^verbatim>\<open>messages\<close>. A point fetch
  of a push event that resolves after the change appends its message unless the id is
  present. After unmounting the continuations run the same code and call the setter of
  the transcript with the same arguments; whether React applies the call to a view that is
  gone is not the component's doing. A fetch that failed changes nothing and throws
  nothing: the poll logs at debug level, the push drops the event.
\<close>

theorem stale_continuation_amended:
  "messages (fst (silentRefreshMessages_of (interval_messages st)
                    (fst (changeRequestId st r)) res))
     = (case (error res, data res) of
          (None, Some d) \<Rightarrow>
            if length d \<noteq> length (interval_messages st) then d else messages st
        | _ \<Rightarrow> messages st) \<and>
   messages (fst (subscribeToMessages (fst (changeRequestId st r)) res'))
     = (case (error res', data res') of
          (None, Some d) \<Rightarrow>
            if list_ex (\<lambda>msg. id_of msg = id_of d) (messages st) then messages st
            else messages st @ [d]
        | _ \<Rightarrow> messages st) \<and>
   snd (silentRefreshMessages_of (interval_messages st) (fst (unmount st)) (ok ds))
     = (if length ds \<noteq> length (interval_messages st) then [SetMessages ds] else []) \<and>
   snd (subscribeToMessages (fst (unmount st)) (ok m))
     = (if list_ex (\<lambda>msg. id_of msg = id_of m) (messages st) then []
        else [SetMessages (messages st @ [m])]) \<and>
   silentRefreshMessages_of ms st' (failed e)
     = (st', [ConsoleDebug ''Silent refresh failed:'']) \<and>
   subscribeToMessages st' (failed e) = (st', [])"
proof (intro conjI)
  show "messages (fst (silentRefreshMessages_of (interval_messages st)
                    (fst (changeRequestId st r)) res))
     = (case (error res, data res) of
          (None, Some d) \<Rightarrow>
            if length d \<noteq> length (interval_messages st) then d else messages st
        | _ \<Rightarrow> messages st)"
    by (simp add: messages_silentRefreshMessages_of messages_changeRequestId
          split: option.splits)
  show "messages (fst (subscribeToMessages (fst (changeRequestId st r)) res'))
     = (case (error res', data res') of
          (None, Some d) \<Rightarrow>
            if list_ex (\<lambda>msg. id_of msg = id_of d) (messages st) then messages st
            else messages st @ [d]
        | _ \<Rightarrow> messages st)"
    by (simp add: messages_subscribeToMessages messages_changeRequestId split: option.splits)
  show "snd (silentRefreshMessages_of (interval_messages st) (fst (unmount st)) (ok ds))
     = (if length ds \<noteq> length (interval_messages st) then [SetMessages ds] else [])"
    by (simp add: silentRefreshMessages_of_def ok_def)
  show "snd (subscribeToMessages (fst (unmount st)) (ok m))
     = (if list_ex (\<lambda>msg. id_of msg = id_of m) (messages st) then []
        else [SetMessages (messages st @ [m])])"
    by (simp add: subscribeToMessages_def ok_def messages_unmount Let_def)
  show "silentRefreshMessages_of ms st' (failed e)
     = (st', [ConsoleDebug ''Silent refresh failed:''])"
    by (simp add: silentRefreshMessages_of_def failed_def)
  show "subscribeToMessages st' (failed e) = (st', [])"
    by (simp add: subscribeToMessages_def failed_def)
qed

text \<open>
  The view of \<open>r1\<close> has loaded \<open>[m1]\<close>; the interval installed at mounting reads the empty
  \<^verbatim>\<open>messages\<close>. A poll of that interval is in flight when the view is switched to \<open>r2\<close>,
  and resolves with \<open>[m2]\<close>: one message against none, the transcript becomes \<open>[m2]\<close> (a
  poll of the new interval, which reads \<open>[m1]\<close>, would leave it).
\<close>

theorem stale_continuation_amended_witness:
  "interval_messages (run (fst (mount ''r1'')) [Load (ok [m1])]) = [] \<and>
   interval_messages (fst (changeRequestId (run (fst (mount ''r1'')) [Load (ok [m1])]) ''r2''))
     = [m1] \<and>
   messages (fst (silentRefreshMessages_of
      (interval_messages (run (fst (mount ''r1'')) [Load (ok [m1])]))
      (fst (changeRequestId (run (fst (mount ''r1'')) [Load (ok [m1])]) ''r2'')) (ok [m2])))
     = [m2] \<and>
   messages (fst (subscribeToMessages
      (fst (changeRequestId (run (fst (mount ''r1'')) [Load (ok [m1])]) ''r2'')) (ok m2)))
     = [m1, m2] \<and>
   snd (silentRefreshMessages_of
      (interval_messages (run (fst (mount ''r1'')) [Load (ok [m1])]))
      (fst (unmount (run (fst (mount ''r1'')) [Load (ok [m1])]))) (ok [m2]))
     = [SetMessages [m2]] \<and>
   snd (subscribeToMessages
      (fst (unmount (run (fst (mount ''r1'')) [Load (ok [m1])]))) (ok m2))
     = [SetMessages [m1, m2]] \<and>
   silentRefreshMessages_of [] (fst (mount ''r1'')) (failed ''StoreUnavailable'')
     = (fst (mount ''r1''), [ConsoleDebug ''Silent refresh failed:'']) \<and>
   subscribeToMessages (fst (mount ''r1'')) (failed ''NotFound'') = (fst (mount ''r1''), [])"
proof -
  let ?st = "run (fst (mount ''r1'')) [Load (ok [m1])]"
  note t = stale_continuation_amended
    [of ?st "''r2''" "ok [m2]" "ok m2" "[m2]" m2 "[]" "fst (mount ''r1'')"]
  have r: "messages ?st = [m1]" by (simp add: ev_defs)
  have i: "interval_messages ?st = []" by (simp add: ev_defs)
  have j: "interval_messages (fst (changeRequestId ?st ''r2'')) = [m1]"
    by (simp only: interval_messages_changeRequestId r)
  have p: "\<not> list_ex (\<lambda>msg. id_of msg = id_of m2) [m1]"
    by (simp add: m1_def m2_def example_message_def)
  have a: "messages (fst (silentRefreshMessages_of (interval_messages ?st)
              (fst (changeRequestId ?st ''r2'')) (ok [m2]))) = [m2]"
    using t i by (simp add: ok_def)
  have b: "messages (fst (subscribeToMessages (fst (changeRequestId ?st ''r2'')) (ok m2)))
             = [m1, m2]"
    using t r p by (simp add: ok_def)
  have c: "snd (silentRefreshMessages_of (interval_messages ?st) (fst (unmount ?st)) (ok [m2]))
             = [SetMessages [m2]]"
    using t i by simp
  have d: "snd (subscribeToMessages (fst (unmount ?st)) (ok m2)) = [SetMessages [m1, m2]]"
    using t r p by simp
  have e: "silentRefreshMessages_of [] (fst (mount ''r1'')) (failed ''StoreUnavailable'')
             = (fst (mount ''r1''), [ConsoleDebug ''Silent refresh failed:''])"
    using stale_continuation_amended
      [of _ _ _ _ _ _ "[]" "fst (mount ''r1'')" "''StoreUnavailable''"]
    by blast
  have f: "subscribeToMessages (fst (mount ''r1'')) (failed ''NotFound'') = (fst (mount ''r1''), [])"
    using stale_continuation_amended [of _ _ _ _ _ _ _ "fst (mount ''r1'')" "''NotFound''"]
    by blast
  from i j a b c d e f show ?thesis by blast
qed

text \<open>
  C6 as stated fails. The view of \<open>r1\<close> has loaded an empty conversation and is switched
  to \<open>r2\<close>. A poll of \<open>r1\<close> that was in flight resolves with \<open>[m1]\<close>, a message of \<open>r1\<close>:
  it becomes the transcript of the view of \<open>r2\<close>. So does \<open>m1\<close> when a point fetch of the
  old subscription resolves with it.
\<close>

theorem stale_continuation_counterexample:
  "requestId (fst (changeRequestId (run (fst (mount ''r1'')) [Load (ok [])]) ''r2'')) = ''r2'' \<and>
   request_id m1 = Some ''r1'' \<and>
   messages (fst (silentRefreshMessages_of
      (interval_messages (run (fst (mount ''r1'')) [Load (ok [])]))
      (fst (changeRequestId (run (fst (mount ''r1'')) [Load (ok [])]) ''r2'')) (ok [m1])))
     = [m1] \<and>
   messages (fst (subscribeToMessages
      (fst (changeRequestId (run (fst (mount ''r1'')) [Load (ok [])]) ''r2'')) (ok m1)))
     = [m1]"
  by (simp add: ev_defs)

subsection \<open>C7: the quiet timer of the scroll policy\<close>




subsection \<open>C8: ids are unique\<close>

text \<open>
  C8. When the lists the store returns are id-unique, the transcript has no two entries
  with the same id after any sequence of results from the initial fetch, the poll and the
  push channel; and a pushed message whose id is already in the transcript leaves the whole
  state, so the transcript and its order, as it was.
\<close>

theorem transcript_ids_unique:
  assumes "unique_ids (messages st)" and "list_all unique_result evs"
  shows "unique_ids (messages (run st evs)) \<and>
         (\<forall>d. list_ex (\<lambda>msg. id_of msg = id_of d) (messages (run st evs))
               \<longrightarrow> step (run st evs) (Push (ok d)) = run st evs)"
  using assms by (simp add: unique_run push_present)

theorem transcript_ids_unique_witness:
  "unique_ids (messages (fst (mount ''r1''))) \<and>
   list_all unique_result [Load (ok [m1]), Push (ok m2), Poll (ok [m1, m2])] \<and>
   unique_ids (messages (run (fst (mount ''r1''))
      [Load (ok [m1]), Push (ok m2), Poll (ok [m1, m2])])) \<and>
   messages (step (run (fst (mount ''r1''))
      [Load (ok [m1]), Push (ok m2), Poll (ok [m1, m2])]) (Push (ok m2))) = [m1, m2]"
proof -
  let ?st = "fst (mount ''r1'')"
  let ?evs = "[Load (ok [m1]), Push (ok m2), Poll (ok [m1, m2])]"
  have h1: "unique_ids (messages ?st)"
    by (simp add: ev_defs unique_ids_def)
  have h2: "list_all unique_result ?evs"
    by (simp add: ok_def unique_ids_def m1_def m2_def example_message_def)
  have r: "messages (run ?st ?evs) = [m1, m2]"
    by (simp add: ev_defs)
  have p: "list_ex (\<lambda>msg. id_of msg = id_of m2) (messages (run ?st ?evs))"
    unfolding r by (simp add: m1_def m2_def example_message_def)
  from transcript_ids_unique [OF h1 h2] p
  have "unique_ids (messages (run ?st ?evs))"
    and "step (run ?st ?evs) (Push (ok m2)) = run ?st ?evs"
    by blast+
  with h1 h2 r show ?thesis by simp
qed

subsection \<open>C9: sending\<close>

text \<open>
  C9, as the code has it. With an input that is not empty after trimming, a signed-in
  user and no send in flight, submitting sets the sending flag and inserts one row with
  the user's id, the conversation id and the trimmed input. When the insert succeeds the
  input is cleared, a scroll to the bottom is scheduled after 100 ms and the transcript is
  not touched. When it fails the error is logged to the console and the state is the one
  before the submit: the input is kept, nothing is shown to the user and nothing is sent
  again.
\<close>

theorem send_contract_amended:
  assumes "trim (newMessage st) \<noteq> []" and "\<not> sending st"
  shows "handleSendMessage st (Some u)
           = (st\<lparr>sending := True\<rparr>,
              [PreventDefault,
               Insert \<lparr>row_sender_id = user_id u, row_request_id = requestId st,
                       row_content = trim (newMessage st)\<rparr>]) \<and>
         handleSendMessage_resolved (st\<lparr>sending := True\<rparr>) None
           = (st\<lparr>newMessage := []\<rparr>, [SetTimeout 100 ScrollIntoView]) \<and>
         handleSendMessage_resolved (st\<lparr>sending := True\<rparr>) (Some e)
           = (st, [ConsoleError ''Error sending message:''])"
  using assms by (simp add: handleSendMessage_def handleSendMessage_resolved_def)

theorem send_contract_amended_witness:
  "trim (newMessage ((init ''r1'')\<lparr>newMessage := '' hello ''\<rparr>)) \<noteq> [] \<and>
   \<not> sending ((init ''r1'')\<lparr>newMessage := '' hello ''\<rparr>) \<and>
   handleSendMessage ((init ''r1'')\<lparr>newMessage := '' hello ''\<rparr>) (Some alice)
     = ((init ''r1'')\<lparr>newMessage := '' hello '', sending := True\<rparr>,
        [PreventDefault,
         Insert \<lparr>row_sender_id = ''u1'', row_request_id = ''r1'', row_content = ''hello''\<rparr>]) \<and>
   handleSendMessage_resolved ((init ''r1'')\<lparr>newMessage := '' hello '', sending := True\<rparr>) None
     = ((init ''r1'')\<lparr>newMessage := []\<rparr>, [SetTimeout 100 ScrollIntoView]) \<and>
   handleSendMessage_resolved ((init ''r1'')\<lparr>newMessage := '' hello '', sending := True\<rparr>)
      (Some ''StoreUnavailable'')
     = ((init ''r1'')\<lparr>newMessage := '' hello ''\<rparr>, [ConsoleError ''Error sending message:''])"
proof -
  let ?st = "(init ''r1'')\<lparr>newMessage := '' hello ''\<rparr>"
  have t: "trim (newMessage ?st) = ''hello''" by (simp add: trim_def isWhiteSpace_def)
  have h1: "trim (newMessage ?st) \<noteq> []" unfolding t by simp
  have h2: "\<not> sending ?st" by (simp add: init_def)
  from send_contract_amended [OF h1 h2, of alice "''StoreUnavailable''"] h1 h2 t
  show ?thesis by (simp add: alice_def init_def)
qed

text \<open>
  C9 as stated fails where the insert fails: the only effect is a line on the console, and
  the state, so the view, is the one before the submit. No error is shown.
\<close>

theorem send_failure_counterexample:
  "handleSendMessage ((run (fst (mount ''r1'')) [Load (ok [])])\<lparr>newMessage := '' hello ''\<rparr>)
      (Some alice)
     = ((run (fst (mount ''r1'')) [Load (ok [])])\<lparr>newMessage := '' hello '', sending := True\<rparr>,
        [PreventDefault,
         Insert \<lparr>row_sender_id = ''u1'', row_request_id = ''r1'', row_content = ''hello''\<rparr>]) \<and>
   handleSendMessage_resolved
      ((run (fst (mount ''r1'')) [Load (ok [])])\<lparr>newMessage := '' hello '', sending := True\<rparr>)
      (Some ''StoreUnavailable'')
     = ((run (fst (mount ''r1'')) [Load (ok [])])\<lparr>newMessage := '' hello ''\<rparr>,
        [ConsoleError ''Error sending message:'']) \<and>
   render ((run (fst (mount ''r1'')) [Load (ok [])])\<lparr>newMessage := '' hello ''\<rparr>) (Some alice)
     = Chat [] '' hello '' False False"
  by (simp add: ev_defs handleSendMessage_def handleSendMessage_resolved_def render_def
        trim_def isWhiteSpace_def alice_def)

subsection \<open>C10: the guard of sending\<close>

text \<open>
  C10. When the input is empty or only white space after trimming, or no user is signed
  in, submitting the form writes nothing to the store and leaves the component state as
  it was: the handler only prevents the default action of the event.
\<close>

theorem handleSendMessage_guard:
  "trim (newMessage st) = [] \<or> user = None
     \<Longrightarrow> handleSendMessage st user = (st, [PreventDefault])"
  by (auto simp add: handleSendMessage_def)

theorem handleSendMessage_guard_witness:
  "(trim (newMessage ((init ''r1'')\<lparr>newMessage := ''   ''\<rparr>)) = [] \<or> Some alice = None) \<and>
   handleSendMessage ((init ''r1'')\<lparr>newMessage := ''   ''\<rparr>) (Some alice)
     = ((init ''r1'')\<lparr>newMessage := ''   ''\<rparr>, [PreventDefault])"
proof -
  have h: "trim (newMessage ((init ''r1'')\<lparr>newMessage := ''   ''\<rparr>)) = [] \<or> Some alice = None"
    by (simp add: trim_def isWhiteSpace_def)
  from handleSendMessage_guard [OF h] h show ?thesis by simp
qed

end
